theory Spec2Isabelle
  imports Main "HOL-Library.Word" "HOL-Library.Multiset"
begin

unbundle bit_operations_syntax

text \<open>
  Package \<open>othell\<close> (\<open>pkg/othell/othell.go\<close>) wires a process into OpenTelemetry tracing
  and metrics and into \<open>log/slog\<close>. Its functions are embedded as HOL functions of the same
  names. What the source keeps in process-wide state (the registered providers, the
  propagator, the default logger, the package variable \<open>projectID\<close>) is passed in and
  returned explicitly, and what the external libraries answer in a run is a parameter.
\<close>

section \<open>Go values used by package othell\<close>

text \<open>
  Errors are values. \<open>fmt.Errorf\<close> without a verb builds a plain error, with \<open>%w\<close> it
  wraps the operand, and \<open>errors.Join\<close> drops nil operands and is nil when none is left.
\<close>

datatype go_error =
    ErrorString string
  | WrapError string go_error
  | JoinError "go_error list"

fun Error :: "go_error \<Rightarrow> string"
  and Error_lines :: "go_error list \<Rightarrow> string" where
  "Error (ErrorString s) = s"
| "Error (WrapError s e) = s"
| "Error (JoinError es) = Error_lines es"
| "Error_lines [] = []"
| "Error_lines [e] = Error e"
| "Error_lines (e # e' # es) = Error e @ [CHR 0x0A] @ Error_lines (e' # es)"

definition fmt_Errorf :: "string \<Rightarrow> go_error" where
  "fmt_Errorf msg = ErrorString msg"

definition fmt_Errorf_w :: "string \<Rightarrow> go_error \<Rightarrow> go_error" where
  "fmt_Errorf_w prefix err = WrapError (prefix @ Error err) err"

definition errors_Join :: "go_error option list \<Rightarrow> go_error option" where
  "errors_Join errs =
     (case List.map_filter (\<lambda>e. e) errs of [] \<Rightarrow> None | es \<Rightarrow> Some (JoinError es))"

datatype panic = TypeAssertionPanic

section \<open>OpenTelemetry objects\<close>

text \<open>
  The SDK objects are opaque to the package: it only builds them from options and hands
  them on. A provider is therefore the constructor applied to the option list it was
  given, and \<open>*resource.Resource\<close> is a nullable pointer.
\<close>

datatype sdk_Resource = SdkResource "(string \<times> string) list"

datatype stdouttrace_Option = WithPrettyPrint

datatype SpanExporter =
    DetectedExporter string
  | StdoutExporter "stdouttrace_Option list"

datatype SpanProcessor =
    NewBatchSpanProcessor SpanExporter
  | NewSimpleSpanProcessor SpanExporter

datatype Sampler = AlwaysSample

datatype TracerProviderOption =
    WithSampler Sampler
  | WithSpanProcessor SpanProcessor
  | sdktrace_WithResource "sdk_Resource option"

datatype TracerProvider = NewTracerProvider "TracerProviderOption list"

text \<open>The span processors registered on a provider, in registration order.\<close>

fun processors_of :: "TracerProviderOption list \<Rightarrow> SpanProcessor list" where
  "processors_of [] = []"
| "processors_of (WithSpanProcessor p # os) = p # processors_of os"
| "processors_of (_ # os) = processors_of os"

fun spanProcessors :: "TracerProvider \<Rightarrow> SpanProcessor list" where
  "spanProcessors (NewTracerProvider os) = processors_of os"

datatype MetricReader = DetectedReader string

datatype MeterProviderOption =
    WithReader MetricReader
  | sdkmetric_WithResource "sdk_Resource option"

datatype MeterProvider = NewMeterProvider "MeterProviderOption list"

datatype TextMapPropagator = CompositePropagator "string list"

text \<open>
  A tracer or meter obtained from the global registry: the provider registered at the
  time of the call (\<open>None\<close> while nothing has been registered) and the instrumentation name.
\<close>

datatype trace_Tracer = NamedTracer "TracerProvider option" string

datatype metric_Meter = NamedMeter "MeterProvider option" string

fun tracer_name :: "trace_Tracer \<Rightarrow> string" where
  "tracer_name (NamedTracer p n) = n"

fun meter_name :: "metric_Meter \<Rightarrow> string" where
  "meter_name (NamedMeter p n) = n"

section \<open>Trace context\<close>

text \<open>
  \<open>trace.TraceID\<close> is \<open>[16]byte\<close> and \<open>trace.SpanID\<close> is \<open>[8]byte\<close>; they are read here as
  big-endian numbers, so that the \<open>String\<close> method (lower-case hexadecimal of the bytes in
  order) prints the 32 digits of the number. A span context is valid when both
  identifiers are non-zero, and sampled when bit 0 of the flags is set.
\<close>

type_synonym trace_TraceID = "128 word"
type_synonym trace_SpanID = "64 word"
type_synonym trace_TraceFlags = "8 word"

record SpanContext =
  TraceID :: trace_TraceID
  SpanID :: trace_SpanID
  TraceFlags :: trace_TraceFlags
  Remote :: bool

definition hex_digit :: "nat \<Rightarrow> char" where
  "hex_digit d = ''0123456789abcdef'' ! (d mod 16)"

fun hex_nat :: "nat \<Rightarrow> nat \<Rightarrow> string" where
  "hex_nat 0 v = []"
| "hex_nat (Suc n) v = hex_nat n (v div 16) @ [hex_digit v]"

definition TraceID_String :: "trace_TraceID \<Rightarrow> string" where
  "TraceID_String t = hex_nat 32 (unat t)"

definition IsValid :: "SpanContext \<Rightarrow> bool" where
  "IsValid sc \<longleftrightarrow> TraceID sc \<noteq> 0 \<and> SpanID sc \<noteq> 0"

definition IsSampled :: "trace_TraceFlags \<Rightarrow> bool" where
  "IsSampled f \<longleftrightarrow> f AND 1 = 1"

datatype Context = Background | ContextWithSpanContext SpanContext

definition SpanContextFromContext :: "Context \<Rightarrow> SpanContext" where
  "SpanContextFromContext ctx =
     (case ctx of
        Background \<Rightarrow> \<lparr>TraceID = 0, SpanID = 0, TraceFlags = 0, Remote = False\<rparr>
      | ContextWithSpanContext sc \<Rightarrow> sc)"

section \<open>Structured logging values\<close>

text \<open>
  \<open>slog.Level\<close> is an integer type. A \<open>slog.Value\<close> is tagged with its kind; the kind
  \<open>KindAny\<close> holds an arbitrary Go value, of which the dynamic types that occur here are
  listed in \<open>go_any\<close>. Group and \<open>LogValuer\<close> values never reach a \<open>ReplaceAttr\<close> function
  and are left out.
\<close>

type_synonym slog_Level = int

definition LevelDebug :: slog_Level where "LevelDebug = - 4"
definition LevelInfo :: slog_Level where "LevelInfo = 0"
definition LevelWarn :: slog_Level where "LevelWarn = 4"
definition LevelError :: slog_Level where "LevelError = 8"

definition LevelKey :: string where "LevelKey = ''level''"
definition TimeKey :: string where "TimeKey = ''time''"
definition MessageKey :: string where "MessageKey = ''msg''"

datatype go_any =
    any_Level slog_Level
  | any_SpanID trace_SpanID
  | any_TraceID trace_TraceID
  | any_string string
  | any_bool bool
  | any_int64 int
  | any_uint64 nat
  | any_Duration int
  | any_Time int
  | any_other string

datatype slog_Value =
    KindAny go_any
  | KindBool bool
  | KindDuration int
  | KindInt64 int
  | KindString string
  | KindTime int
  | KindUint64 nat

definition StringValue :: "string \<Rightarrow> slog_Value" where
  "StringValue s = KindString s"

definition BoolValue :: "bool \<Rightarrow> slog_Value" where
  "BoolValue b = KindBool b"

text \<open>\<open>slog.AnyValue\<close> stores a value of a basic type under that type's own kind.\<close>

fun AnyValue :: "go_any \<Rightarrow> slog_Value" where
  "AnyValue (any_string s) = KindString s"
| "AnyValue (any_bool b) = KindBool b"
| "AnyValue (any_int64 i) = KindInt64 i"
| "AnyValue (any_uint64 n) = KindUint64 n"
| "AnyValue (any_Duration d) = KindDuration d"
| "AnyValue (any_Time t) = KindTime t"
| "AnyValue v = KindAny v"

text \<open>\<open>Value.Any\<close> gives the held value back as a Go value of its dynamic type.\<close>

fun Value_Any :: "slog_Value \<Rightarrow> go_any" where
  "Value_Any (KindAny v) = v"
| "Value_Any (KindBool b) = any_bool b"
| "Value_Any (KindDuration d) = any_Duration d"
| "Value_Any (KindInt64 i) = any_int64 i"
| "Value_Any (KindString s) = any_string s"
| "Value_Any (KindTime t) = any_Time t"
| "Value_Any (KindUint64 n) = any_uint64 n"

text \<open>Whether a Go value has the dynamic type \<open>slog.Level\<close>.\<close>

fun is_Level :: "go_any \<Rightarrow> bool" where
  "is_Level (any_Level l) = True"
| "is_Level _ = False"

record Attr =
  Key :: string
  Value :: slog_Value

definition slog_Any :: "string \<Rightarrow> go_any \<Rightarrow> Attr" where
  "slog_Any k v = \<lparr>Key = k, Value = AnyValue v\<rparr>"

definition slog_Bool :: "string \<Rightarrow> bool \<Rightarrow> Attr" where
  "slog_Bool k b = \<lparr>Key = k, Value = BoolValue b\<rparr>"

record Record =
  Time :: int
  Message :: string
  Level :: slog_Level
  PC :: nat
  attrs :: "Attr list"

definition AddAttrs :: "Record \<Rightarrow> Attr list \<Rightarrow> Record" where
  "AddAttrs r as = r\<lparr>attrs := attrs r @ as\<rparr>"

text \<open>
  A \<open>slog.Handler\<close> is used through its \<open>Handle\<close> method only. The result type \<open>'r\<close> stands
  for everything a handler does with the record it is given: the error it returns and
  the output it writes.
\<close>

type_synonym 'r slog_Handler = "Context \<Rightarrow> Record \<Rightarrow> 'r"

datatype Writer = Stdout

record HandlerOptions =
  ReplaceAttr :: "(string list \<Rightarrow> Attr \<Rightarrow> panic + Attr) option"

datatype 'r Logger = slog_New "'r slog_Handler"

section \<open>The package\<close>

subsection \<open>The environment identifier\<close>

text \<open>
  The metadata source is a stub that records how often it is asked: \<open>OnGCE_result\<close> and
  \<open>ProjectID_result\<close> are its answers, the two counters the calls made so far.
\<close>

record metadata_source =
  OnGCE_result :: bool
  ProjectID_result :: "go_error + string"
  OnGCE_calls :: nat
  ProjectID_calls :: nat

definition metadata_OnGCE :: "metadata_source \<Rightarrow> bool \<times> metadata_source" where
  "metadata_OnGCE m = (OnGCE_result m, m\<lparr>OnGCE_calls := OnGCE_calls m + 1\<rparr>)"

definition metadata_ProjectIDWithContext ::
  "metadata_source \<Rightarrow> (go_error + string) \<times> metadata_source" where
  "metadata_ProjectIDWithContext m =
     (ProjectID_result m, m\<lparr>ProjectID_calls := ProjectID_calls m + 1\<rparr>)"

definition getProjectID :: "metadata_source \<Rightarrow> string \<times> metadata_source" where
  "getProjectID m =
     (case metadata_OnGCE m of
        (True, m1) \<Rightarrow>
          (case metadata_ProjectIDWithContext m1 of
             (Inr ident, m2) \<Rightarrow> (ident, m2)
           | (Inl err, m2) \<Rightarrow> (''non-gcp'', m2))
      | (False, m1) \<Rightarrow> (''non-gcp'', m1))"

text \<open>The package-level variables; \<open>init\<close> runs once, when the package is loaded.\<close>

record package_vars =
  projectID :: string

definition init :: "metadata_source \<Rightarrow> package_vars \<times> metadata_source" where
  "init m = (case getProjectID m of (ident, m') \<Rightarrow> (\<lparr>projectID = ident\<rparr>, m'))"

subsection \<open>Options\<close>

record Othell =
  CollectorEndpoint :: string
  TraceProvider :: "TracerProvider option"
  MeterProvider :: "MeterProvider option"
  Tracer :: "trace_Tracer option"
  Meter :: "metric_Meter option"
  Resource :: "sdk_Resource option"
  DebugTracer :: bool

type_synonym Option = "Othell \<Rightarrow> Othell"

definition Othell_zero :: Othell where
  "Othell_zero =
     \<lparr>CollectorEndpoint = [], TraceProvider = None, MeterProvider = None, Tracer = None,
      Meter = None, Resource = None, DebugTracer = False\<rparr>"

definition WithCollectorEndpoint :: "string \<Rightarrow> Option" where
  "WithCollectorEndpoint endpoint = (\<lambda>oth. oth\<lparr>CollectorEndpoint := endpoint\<rparr>)"

definition WithResource :: "sdk_Resource option \<Rightarrow> Option" where
  "WithResource res = (\<lambda>oth. oth\<lparr>Resource := res\<rparr>)"

definition WithDebugTracer :: Option where
  "WithDebugTracer = (\<lambda>oth. oth\<lparr>DebugTracer := True\<rparr>)"

text \<open>
  The loop \<open>for _, opt := range opts { opt(o) }\<close> of \<open>New\<close>. The receiver \<open>o\<close> of the source
  is written \<open>oth\<close> throughout.
\<close>

fun applyOptions :: "Option list \<Rightarrow> Othell \<Rightarrow> Othell" where
  "applyOptions [] oth = oth"
| "applyOptions (opt # opts) oth = applyOptions opts (opt oth)"

text \<open>
  The calls of the package's three option constructors, as data: a list of them is an
  option list written with these constructors only.
\<close>

datatype OptionCall =
    CallWithCollectorEndpoint string
  | CallWithResource "sdk_Resource option"
  | CallWithDebugTracer

fun option_of :: "OptionCall \<Rightarrow> Option" where
  "option_of (CallWithCollectorEndpoint endpoint) = WithCollectorEndpoint endpoint"
| "option_of (CallWithResource res) = WithResource res"
| "option_of CallWithDebugTracer = WithDebugTracer"

fun is_endpoint_call :: "OptionCall \<Rightarrow> bool" where
  "is_endpoint_call (CallWithCollectorEndpoint e) = True"
| "is_endpoint_call _ = False"

fun is_resource_call :: "OptionCall \<Rightarrow> bool" where
  "is_resource_call (CallWithResource r) = True"
| "is_resource_call _ = False"

fun endpoint_writes :: "OptionCall list \<Rightarrow> string list" where
  "endpoint_writes [] = []"
| "endpoint_writes (CallWithCollectorEndpoint e # cs) = e # endpoint_writes cs"
| "endpoint_writes (_ # cs) = endpoint_writes cs"

fun resource_writes :: "OptionCall list \<Rightarrow> sdk_Resource option list" where
  "resource_writes [] = []"
| "resource_writes (CallWithResource r # cs) = r # resource_writes cs"
| "resource_writes (_ # cs) = resource_writes cs"

subsection \<open>External collaborators and process-wide defaults\<close>

text \<open>
  What the external libraries answer in one run: the propagator and the exporters that
  auto-detection selects from the process environment (or the error it reports), whether
  building the console exporter fails, and the JSON handler constructor of \<open>log/slog\<close>.
\<close>

record 'r extern =
  NewTextMapPropagator :: TextMapPropagator
  NewSpanExporter :: "go_error + SpanExporter"
  stdouttrace_failure :: "go_error option"
  NewMetricReader :: "go_error + MetricReader"
  NewJSONHandler :: "Writer \<Rightarrow> HandlerOptions \<Rightarrow> 'r slog_Handler"

definition stdouttrace_New ::
  "'r extern \<Rightarrow> stdouttrace_Option list \<Rightarrow> go_error + SpanExporter" where
  "stdouttrace_New ext opts =
     (case stdouttrace_failure ext of
        Some err \<Rightarrow> Inl err
      | None \<Rightarrow> Inr (StdoutExporter opts))"

record 'r globals =
  global_TextMapPropagator :: TextMapPropagator
  global_TracerProvider :: "TracerProvider option"
  global_MeterProvider :: "MeterProvider option"
  slog_Default :: "'r Logger"

definition otel_SetTextMapPropagator :: "TextMapPropagator \<Rightarrow> 'r globals \<Rightarrow> 'r globals" where
  "otel_SetTextMapPropagator p g = g\<lparr>global_TextMapPropagator := p\<rparr>"

definition otel_SetTracerProvider :: "TracerProvider option \<Rightarrow> 'r globals \<Rightarrow> 'r globals" where
  "otel_SetTracerProvider tp g = g\<lparr>global_TracerProvider := tp\<rparr>"

definition otel_SetMeterProvider :: "MeterProvider option \<Rightarrow> 'r globals \<Rightarrow> 'r globals" where
  "otel_SetMeterProvider mp g = g\<lparr>global_MeterProvider := mp\<rparr>"

definition slog_SetDefault :: "'r Logger \<Rightarrow> 'r globals \<Rightarrow> 'r globals" where
  "slog_SetDefault l g = g\<lparr>slog_Default := l\<rparr>"

definition otel_Tracer :: "'r globals \<Rightarrow> string \<Rightarrow> trace_Tracer" where
  "otel_Tracer g name = NamedTracer (global_TracerProvider g) name"

definition otel_Meter :: "'r globals \<Rightarrow> string \<Rightarrow> metric_Meter" where
  "otel_Meter g name = NamedMeter (global_MeterProvider g) name"

subsection \<open>The log decorator\<close>

record 'r spanContextLogHandler =
  Handler :: "'r slog_Handler"

definition handlerWithSpanContext :: "'r slog_Handler \<Rightarrow> 'r spanContextLogHandler" where
  "handlerWithSpanContext handler = \<lparr>Handler = handler\<rparr>"

definition Handle ::
  "package_vars \<Rightarrow> 'r spanContextLogHandler \<Rightarrow> Context \<Rightarrow> Record \<Rightarrow> 'r" where
  "Handle pkg t ctx record =
     (let s = SpanContextFromContext ctx in
      if IsValid s then
        (let record1 = AddAttrs record
               [slog_Any ''logging.googleapis.com/trace''
                  (any_string (''projects/'' @ projectID pkg @ ''/traces/''
                     @ TraceID_String (TraceID s)))];
             record2 = AddAttrs record1
               [slog_Any ''logging.googleapis.com/spanId'' (any_SpanID (SpanID s))];
             record3 = AddAttrs record2
               [slog_Bool ''logging.googleapis.com/trace_sampled''
                  (IsSampled (TraceFlags s))]
         in Handler t ctx record3)
      else Handler t ctx record)"

definition replacer :: "string list \<Rightarrow> Attr \<Rightarrow> panic + Attr" where
  "replacer groups a =
     (if Key a = LevelKey then
        (let a1 = a\<lparr>Key := ''severity''\<rparr> in
         case Value_Any (Value a1) of
           any_Level level \<Rightarrow>
             if level = LevelWarn then Inr (a1\<lparr>Value := StringValue ''WARNING''\<rparr>)
             else Inr a1
         | _ \<Rightarrow> Inl TypeAssertionPanic)
      else if Key a = TimeKey then Inr (a\<lparr>Key := ''timestamp''\<rparr>)
      else if Key a = MessageKey then Inr (a\<lparr>Key := ''message''\<rparr>)
      else Inr a)"

subsection \<open>Initialisation\<close>

text \<open>
  Each step returns its error (\<open>None\<close> for nil), the receiver as it has left it, and the
  process-wide defaults as it has left them.
\<close>

definition initTracer ::
  "'r extern \<Rightarrow> Othell \<Rightarrow> 'r globals \<Rightarrow> go_error option \<times> Othell \<times> 'r globals" where
  "initTracer ext oth g =
     (let g1 = otel_SetTextMapPropagator (NewTextMapPropagator ext) g in
      case NewSpanExporter ext of
        Inl err \<Rightarrow> (Some err, oth, g1)
      | Inr otelExporter \<Rightarrow>
          (let traceProviderOptions =
                 [] @ [WithSampler AlwaysSample]
                    @ [WithSpanProcessor (NewBatchSpanProcessor otelExporter)]
                    @ [sdktrace_WithResource (Resource oth)]
           in if DebugTracer oth then
                (case stdouttrace_New ext [WithPrettyPrint] of
                   Inl err \<Rightarrow>
                     (Some (fmt_Errorf_w ''failed to create console exporter: '' err), oth, g1)
                 | Inr consoleExporter \<Rightarrow>
                     (let traceProviderOptions2 = traceProviderOptions
                            @ [WithSpanProcessor (NewSimpleSpanProcessor consoleExporter)];
                          o1 = oth\<lparr>TraceProvider :=
                                   Some (NewTracerProvider traceProviderOptions2)\<rparr>
                      in (None, o1, otel_SetTracerProvider (TraceProvider o1) g1)))
              else
                (let o1 = oth\<lparr>TraceProvider := Some (NewTracerProvider traceProviderOptions)\<rparr>
                 in (None, o1, otel_SetTracerProvider (TraceProvider o1) g1))))"

definition initMeter ::
  "'r extern \<Rightarrow> Othell \<Rightarrow> 'r globals \<Rightarrow> go_error option \<times> Othell \<times> 'r globals" where
  "initMeter ext oth g =
     (case NewMetricReader ext of
        Inl err \<Rightarrow> (errors_Join [Some err], oth, g)
      | Inr meter \<Rightarrow>
          (let o1 = oth\<lparr>MeterProvider :=
                       Some (NewMeterProvider [WithReader meter, sdkmetric_WithResource (Resource oth)])\<rparr>
           in (None, o1, otel_SetMeterProvider (MeterProvider o1) g)))"

definition initLogging ::
  "'r extern \<Rightarrow> package_vars \<Rightarrow> Othell \<Rightarrow> 'r globals \<Rightarrow> go_error option \<times> Othell \<times> 'r globals" where
  "initLogging ext pkg oth g =
     (let jsonHandler = NewJSONHandler ext Stdout \<lparr>ReplaceAttr = Some replacer\<rparr>;
          instrumentedHandler = handlerWithSpanContext jsonHandler
      in (None, oth, slog_SetDefault (slog_New (Handle pkg instrumentedHandler)) g))"

text \<open>
  \<open>New\<close> returns the pair of the source (\<open>None\<close> for a nil pointer and for a nil error)
  together with the process-wide defaults after the call.
\<close>

definition New ::
  "'r extern \<Rightarrow> package_vars \<Rightarrow> string \<Rightarrow> Option list \<Rightarrow> 'r globals
     \<Rightarrow> (Othell option \<times> go_error option) \<times> 'r globals" where
  "New ext pkg name opts g =
     (let oth = applyOptions opts Othell_zero in
      if Resource oth = None then
        ((None, Some (fmt_Errorf ''resource is required. Use WithResoure()'')), g)
      else
        (case initTracer ext oth g of
           (Some err, o1, g1) \<Rightarrow> ((Some o1, Some err), g1)
         | (None, o1, g1) \<Rightarrow>
             (case initMeter ext o1 g1 of
                (Some err, o2, g2) \<Rightarrow> ((Some o2, Some err), g2)
              | (None, o2, g2) \<Rightarrow>
                  (case initLogging ext pkg o2 g2 of
                     (Some err, o3, g3) \<Rightarrow> ((Some o3, Some err), g3)
                   | (None, o3, g3) \<Rightarrow>
                       (let o4 = o3\<lparr>Meter := Some (otel_Meter g3 (name @ ''-meter''))\<rparr>;
                            o5 = o4\<lparr>Tracer := Some (otel_Tracer g3 (name @ ''-tracer''))\<rparr>
                        in ((Some o5, None), g3))))))"

section \<open>Example inputs\<close>

text \<open>
  A run in which auto-detection selects OTLP exporters and nothing is registered yet, a
  run in which the metric reader cannot be built, two metadata servers, and a log record
  emitted inside a sampled span.
\<close>

definition example_resource :: sdk_Resource where
  "example_resource = SdkResource [(''service.name'', ''checkout'')]"

definition example_extern :: "Record extern" where
  "example_extern =
     \<lparr>NewTextMapPropagator = CompositePropagator [''tracecontext'', ''baggage''],
      NewSpanExporter = Inr (DetectedExporter ''otlp''),
      stdouttrace_failure = None,
      NewMetricReader = Inr (DetectedReader ''otlp''),
      NewJSONHandler = (\<lambda>w opts ctx r. r)\<rparr>"

definition failing_meter_extern :: "Record extern" where
  "failing_meter_extern =
     example_extern\<lparr>NewMetricReader := Inl (ErrorString ''unknown reader'')\<rparr>"

definition example_globals :: "Record globals" where
  "example_globals =
     \<lparr>global_TextMapPropagator = CompositePropagator [],
      global_TracerProvider = None,
      global_MeterProvider = None,
      slog_Default = slog_New (\<lambda>ctx r. r)\<rparr>"

definition example_package :: package_vars where
  "example_package = \<lparr>projectID = ''non-gcp''\<rparr>"

definition failing_metadata :: metadata_source where
  "failing_metadata =
     \<lparr>OnGCE_result = True, ProjectID_result = Inl (ErrorString ''metadata: timeout''),
      OnGCE_calls = 0, ProjectID_calls = 0\<rparr>"

definition gce_metadata :: metadata_source where
  "gce_metadata =
     \<lparr>OnGCE_result = True, ProjectID_result = Inr ''my-project'',
      OnGCE_calls = 0, ProjectID_calls = 0\<rparr>"

definition example_record :: Record where
  "example_record =
     \<lparr>Time = 1700000000, Message = ''started'', Level = LevelInfo, PC = 0,
      attrs = [\<lparr>Key = ''user'', Value = KindString ''ada''\<rparr>]\<rparr>"

definition example_span :: SpanContext where
  "example_span =
     \<lparr>TraceID = 0x0af7651916cd43dd8448eb211c80319c, SpanID = 0xb7ad6b7169203331,
      TraceFlags = 1, Remote = False\<rparr>"

lemmas example_defs = example_resource_def example_extern_def example_globals_def
  example_package_def

lemmas init_defs = initTracer_def initMeter_def initLogging_def stdouttrace_New_def
  otel_SetTextMapPropagator_def otel_SetTracerProvider_def otel_SetMeterProvider_def
  slog_SetDefault_def otel_Tracer_def otel_Meter_def errors_Join_def List.map_filter_def
  fmt_Errorf_def fmt_Errorf_w_def Othell_zero_def WithCollectorEndpoint_def WithResource_def
  WithDebugTracer_def Let_def

section \<open>Option lists\<close>

text \<open>
  What a list of the three constructors leaves in the struct: the last endpoint and the
  last resource written, and the debug flag if it was set at all; every other field is
  as before.
\<close>

lemma applyOptions_calls:
  "applyOptions (map option_of cs) z =
     z\<lparr>CollectorEndpoint :=
          (if endpoint_writes cs = [] then CollectorEndpoint z else last (endpoint_writes cs)),
       Resource := (if resource_writes cs = [] then Resource z else last (resource_writes cs)),
       DebugTracer := (DebugTracer z \<or> CallWithDebugTracer \<in> set cs)\<rparr>"
proof (induction cs arbitrary: z)
  case Nil
  show ?case by simp
next
  case (Cons c cs)
  show ?case
    by (cases c)
      (simp_all add: Cons.IH WithCollectorEndpoint_def WithResource_def WithDebugTracer_def)
qed

lemma set_endpoint_writes:
  "set (endpoint_writes cs) = {e. CallWithCollectorEndpoint e \<in> set cs}"
  by (induction cs rule: endpoint_writes.induct) auto

lemma set_resource_writes:
  "set (resource_writes cs) = {r. CallWithResource r \<in> set cs}"
  by (induction cs rule: resource_writes.induct) auto

lemma last_write_agree:
  assumes "set ws' = set ws" and "length (remdups ws) \<le> 1"
  shows "(if ws' = [] then d else last ws') = (if ws = [] then d else last ws)"
proof (cases "ws = []")
  case True
  with assms(1) show ?thesis by simp
next
  case False
  with assms(1) have ne: "ws' \<noteq> []" by auto
  have "card (set ws) \<le> Suc 0"
    using assms(2) by (simp add: length_remdups_card_conv)
  then have same: "\<forall>a\<in>set ws. \<forall>b\<in>set ws. a = b"
    by (simp add: card_le_Suc0_iff_eq)
  have "last ws' \<in> set ws" using ne assms(1) last_in_set by blast
  moreover have "last ws \<in> set ws" using False by simp
  ultimately have "last ws' = last ws" using same by blast
  with False ne show ?thesis by simp
qed

lemma applyOptions_permuted:
  assumes "mset cs' = mset cs"
    and "length (remdups (endpoint_writes cs)) \<le> 1"
    and "length (remdups (resource_writes cs)) \<le> 1"
  shows "applyOptions (map option_of cs') z = applyOptions (map option_of cs) z"
proof -
  from assms(1) have s: "set cs' = set cs" by (rule mset_eq_setD)
  have e: "set (endpoint_writes cs') = set (endpoint_writes cs)"
    by (simp add: set_endpoint_writes s)
  have r: "set (resource_writes cs') = set (resource_writes cs)"
    by (simp add: set_resource_writes s)
  show ?thesis
    unfolding applyOptions_calls
    using last_write_agree [OF e assms(2), of "CollectorEndpoint z"]
      last_write_agree [OF r assms(3), of "Resource z"] s
    by simp
qed

lemma resource_writes_filter:
  "resource_writes (filter (\<lambda>c. \<not> is_endpoint_call c) cs) = resource_writes cs"
  by (induction cs rule: resource_writes.induct) auto

lemma endpoint_writes_filter:
  "endpoint_writes (filter (\<lambda>c. \<not> is_endpoint_call c) cs) = []"
  by (induction cs rule: endpoint_writes.induct) auto

lemma debug_filter:
  "CallWithDebugTracer \<in> set (filter (\<lambda>c. \<not> is_endpoint_call c) cs)
     \<longleftrightarrow> CallWithDebugTracer \<in> set cs"
  by auto

lemma applyOptions_endpoint:
  "applyOptions (map option_of cs) Othell_zero =
     (applyOptions (map option_of (filter (\<lambda>c. \<not> is_endpoint_call c) cs)) Othell_zero)
       \<lparr>CollectorEndpoint := (if endpoint_writes cs = [] then [] else last (endpoint_writes cs))\<rparr>"
  by (simp add: applyOptions_calls resource_writes_filter endpoint_writes_filter debug_filter
        Othell_zero_def)

section \<open>The initialisation steps\<close>

lemma initTracer_success:
  assumes "initTracer ext oth g = (None, o1, g1)"
  shows "\<exists>exp. NewSpanExporter ext = Inr exp
     \<and> o1 = oth\<lparr>TraceProvider := Some (NewTracerProvider
           ([WithSampler AlwaysSample, WithSpanProcessor (NewBatchSpanProcessor exp),
             sdktrace_WithResource (Resource oth)]
            @ (if DebugTracer oth
               then [WithSpanProcessor (NewSimpleSpanProcessor (StdoutExporter [WithPrettyPrint]))]
               else [])))\<rparr>
     \<and> g1 = g\<lparr>global_TextMapPropagator := NewTextMapPropagator ext,
              global_TracerProvider := TraceProvider o1\<rparr>"
  using assms
  by (auto simp: initTracer_def Let_def stdouttrace_New_def otel_SetTextMapPropagator_def
        otel_SetTracerProvider_def split: sum.splits if_splits option.splits)

lemma initMeter_cases:
  "initMeter ext oth g =
     (case NewMetricReader ext of
        Inl err \<Rightarrow> (Some (JoinError [err]), oth, g)
      | Inr meter \<Rightarrow>
          (None,
           oth\<lparr>MeterProvider :=
                 Some (NewMeterProvider [WithReader meter, sdkmetric_WithResource (Resource oth)])\<rparr>,
           g\<lparr>global_MeterProvider :=
                 Some (NewMeterProvider [WithReader meter, sdkmetric_WithResource (Resource oth)])\<rparr>))"
  by (simp add: initMeter_def errors_Join_def List.map_filter_def otel_SetMeterProvider_def Let_def
        split: sum.splits)

lemma initLogging_result:
  "initLogging ext pkg oth g =
     (None, oth,
      g\<lparr>slog_Default := slog_New (Handle pkg
           (handlerWithSpanContext (NewJSONHandler ext Stdout \<lparr>ReplaceAttr = Some replacer\<rparr>)))\<rparr>)"
  by (simp add: initLogging_def slog_SetDefault_def Let_def)

text \<open>
  \<open>New\<close> reads its options only through the struct they leave, and no step reads the
  endpoint field.
\<close>

lemma New_config:
  "New ext pkg name opts g = New ext pkg name [\<lambda>_. applyOptions opts Othell_zero] g"
  by (simp add: New_def)

lemma initTracer_endpoint:
  "initTracer ext (oth\<lparr>CollectorEndpoint := e\<rparr>) g =
     (case initTracer ext oth g of (err, o1, g1) \<Rightarrow> (err, o1\<lparr>CollectorEndpoint := e\<rparr>, g1))"
  by (simp add: initTracer_def Let_def otel_SetTracerProvider_def split: sum.splits)

lemma initMeter_endpoint:
  "initMeter ext (oth\<lparr>CollectorEndpoint := e\<rparr>) g =
     (case initMeter ext oth g of (err, o1, g1) \<Rightarrow> (err, o1\<lparr>CollectorEndpoint := e\<rparr>, g1))"
  by (simp add: initMeter_cases split: sum.splits)

lemma New_endpoint:
  "New ext pkg name [\<lambda>_. oth\<lparr>CollectorEndpoint := e\<rparr>] g =
     (case New ext pkg name [\<lambda>_. oth] g of
        ((h, err), g') \<Rightarrow> ((map_option (\<lambda>h. h\<lparr>CollectorEndpoint := e\<rparr>) h, err), g'))"
  by (simp add: New_def Let_def initTracer_endpoint initMeter_endpoint initLogging_result
        split: prod.splits option.splits)

lemma New_endpoint_calls:
  "New ext pkg name (map option_of cs) g =
     (case New ext pkg name (map option_of (filter (\<lambda>c. \<not> is_endpoint_call c) cs)) g of
        ((h, err), g') \<Rightarrow>
          ((map_option (\<lambda>h. h\<lparr>CollectorEndpoint :=
               (if endpoint_writes cs = [] then [] else last (endpoint_writes cs))\<rparr>) h, err), g'))"
  by (subst New_config, subst applyOptions_endpoint, subst New_endpoint, subst New_config [symmetric])
    (rule refl)

section \<open>The log decorator and the rewriting function\<close>

lemma hex_nat_numeral:
  "hex_nat (numeral k) v = hex_nat (pred_numeral k) (v div 16) @ [hex_digit v]"
proof -
  have "numeral k = Suc (pred_numeral k)" by (rule numeral_eq_Suc)
  then show ?thesis by (simp only: hex_nat.simps)
qed

lemma Handle_valid:
  assumes "IsValid (SpanContextFromContext ctx)"
  shows "Handle pkg t ctx r =
     Handler t ctx (r\<lparr>attrs := attrs r @
       [\<lparr>Key = ''logging.googleapis.com/trace'',
         Value = KindString (''projects/'' @ projectID pkg @ ''/traces/''
                   @ TraceID_String (TraceID (SpanContextFromContext ctx)))\<rparr>,
        \<lparr>Key = ''logging.googleapis.com/spanId'',
         Value = KindAny (any_SpanID (SpanID (SpanContextFromContext ctx)))\<rparr>,
        \<lparr>Key = ''logging.googleapis.com/trace_sampled'',
         Value = KindBool (IsSampled (TraceFlags (SpanContextFromContext ctx)))\<rparr>]\<rparr>)"
  using assms
  by (simp add: Handle_def Let_def AddAttrs_def slog_Any_def slog_Bool_def BoolValue_def)

lemma Handle_invalid:
  assumes "\<not> IsValid (SpanContextFromContext ctx)"
  shows "Handle pkg t ctx r = Handler t ctx r"
  using assms by (simp add: Handle_def)

section \<open>Claims about initialisation\<close>

text \<open>
  C1. When no option of the list supplies Resource Metadata, \<open>New\<close> returns a nil handle
  and the configuration error, and the process-wide defaults are the ones it was called
  with: no propagator, tracer provider, meter provider or log handler has been
  installed, and no provider is returned.
\<close>

theorem New_requires_resource:
  assumes "resource_writes cs = []"
  shows "New ext pkg name (map option_of cs) g =
           ((None, Some (ErrorString ''resource is required. Use WithResoure()'')), g)"
  using assms by (simp add: New_def applyOptions_calls Othell_zero_def fmt_Errorf_def)

theorem New_requires_resource_witness:
  "New example_extern example_package ''checkout''
     (map option_of [CallWithCollectorEndpoint ''localhost:4317'', CallWithDebugTracer])
     example_globals =
   ((None, Some (ErrorString ''resource is required. Use WithResoure()'')), example_globals)"
  using New_requires_resource
    [of "[CallWithCollectorEndpoint ''localhost:4317'', CallWithDebugTracer]"
        example_extern example_package "''checkout''" example_globals]
  by simp

text \<open>
  C4. After a successful \<open>initTracer\<close> the provider stored in the receiver (and registered
  as the process-wide default) has, with the debug flag set, exactly two span
  processors: the batching processor of the auto-detected exporter, followed by a simple
  processor of a pretty-printing stdout exporter; with the flag unset it has the
  batching processor only.
\<close>

theorem initTracer_processors:
  assumes "initTracer ext oth g = (None, o1, g1)"
  shows "\<exists>exp. NewSpanExporter ext = Inr exp
     \<and> map_option spanProcessors (TraceProvider o1) =
         Some (if DebugTracer oth
               then [NewBatchSpanProcessor exp,
                     NewSimpleSpanProcessor (StdoutExporter [WithPrettyPrint])]
               else [NewBatchSpanProcessor exp])
     \<and> global_TracerProvider g1 = TraceProvider o1"
  using initTracer_success [OF assms] by auto

theorem initTracer_processors_witness:
  "map_option spanProcessors (TraceProvider (fst (snd
       (initTracer example_extern
          (applyOptions [WithResource (Some example_resource), WithDebugTracer] Othell_zero)
          example_globals)))) =
     Some [NewBatchSpanProcessor (DetectedExporter ''otlp''),
           NewSimpleSpanProcessor (StdoutExporter [WithPrettyPrint])]
   \<and> map_option spanProcessors (TraceProvider (fst (snd
       (initTracer example_extern
          (applyOptions [WithResource (Some example_resource)] Othell_zero)
          example_globals)))) =
     Some [NewBatchSpanProcessor (DetectedExporter ''otlp'')]"
proof -
  let ?d = "initTracer example_extern
      (applyOptions [WithResource (Some example_resource), WithDebugTracer] Othell_zero)
      example_globals"
  let ?n = "initTracer example_extern
      (applyOptions [WithResource (Some example_resource)] Othell_zero) example_globals"
  have d: "?d = (None, fst (snd ?d), snd (snd ?d))"
    by (simp add: init_defs example_defs)
  have n: "?n = (None, fst (snd ?n), snd (snd ?n))"
    by (simp add: init_defs example_defs)
  show ?thesis
    using initTracer_processors [OF d] initTracer_processors [OF n]
    by (simp add: init_defs example_defs)
qed

text \<open>
  C5. When the resource is present, \<open>initTracer\<close> has succeeded and the metric reader
  cannot be built, \<open>New\<close> returns an error (the joined error of the reader) together with
  the handle as \<open>initTracer\<close> left it, and the process-wide defaults are the ones
  \<open>initTracer\<close> left: the tracer provider it built is the registered one and the
  propagator is installed. The metric reader is the only later step that can fail,
  since \<open>initLogging\<close> returns nil on every input.
\<close>

theorem New_partial_initialisation:
  assumes "Resource (applyOptions opts Othell_zero) \<noteq> None"
    and "initTracer ext (applyOptions opts Othell_zero) g = (None, o1, g1)"
    and "NewMetricReader ext = Inl e"
  shows "New ext pkg name opts g = ((Some o1, Some (JoinError [e])), g1)
     \<and> global_TracerProvider g1 = TraceProvider o1 \<and> TraceProvider o1 \<noteq> None
     \<and> global_TextMapPropagator g1 = NewTextMapPropagator ext
     \<and> fst (initLogging ext pkg o2 g2) = None"
proof -
  from initTracer_success [OF assms(2)]
  have tp: "TraceProvider o1 \<noteq> None" "global_TracerProvider g1 = TraceProvider o1"
    "global_TextMapPropagator g1 = NewTextMapPropagator ext"
    by auto
  from assms have "New ext pkg name opts g = ((Some o1, Some (JoinError [e])), g1)"
    by (simp add: New_def Let_def initMeter_cases)
  with tp show ?thesis by (simp add: initLogging_result)
qed

theorem New_partial_initialisation_witness:
  "New failing_meter_extern example_package ''checkout''
       [WithResource (Some example_resource)] example_globals =
     ((Some (Othell_zero\<lparr>Resource := Some example_resource,
          TraceProvider := Some (NewTracerProvider
            [WithSampler AlwaysSample,
             WithSpanProcessor (NewBatchSpanProcessor (DetectedExporter ''otlp'')),
             sdktrace_WithResource (Some example_resource)])\<rparr>),
       Some (JoinError [ErrorString ''unknown reader''])),
      example_globals\<lparr>global_TextMapPropagator := CompositePropagator [''tracecontext'', ''baggage''],
        global_TracerProvider := Some (NewTracerProvider
            [WithSampler AlwaysSample,
             WithSpanProcessor (NewBatchSpanProcessor (DetectedExporter ''otlp'')),
             sdktrace_WithResource (Some example_resource)])\<rparr>)
   \<and> global_TracerProvider (snd (New failing_meter_extern example_package ''checkout''
       [WithResource (Some example_resource)] example_globals)) =
     Some (NewTracerProvider
       [WithSampler AlwaysSample,
        WithSpanProcessor (NewBatchSpanProcessor (DetectedExporter ''otlp'')),
        sdktrace_WithResource (Some example_resource)])
   \<and> global_TextMapPropagator (snd (New failing_meter_extern example_package ''checkout''
       [WithResource (Some example_resource)] example_globals)) =
     CompositePropagator [''tracecontext'', ''baggage'']"
proof -
  let ?opts = "[WithResource (Some example_resource)]"
  let ?t = "initTracer failing_meter_extern (applyOptions ?opts Othell_zero) example_globals"
  have r: "Resource (applyOptions ?opts Othell_zero) \<noteq> None"
    by (simp add: init_defs)
  have t: "?t = (None, fst (snd ?t), snd (snd ?t))"
    by (simp add: init_defs example_defs failing_meter_extern_def)
  have m: "NewMetricReader failing_meter_extern = Inl (ErrorString ''unknown reader'')"
    by (simp add: failing_meter_extern_def)
  show ?thesis
    using New_partial_initialisation
      [OF r t m, of example_package "''checkout''" Othell_zero example_globals]
    by (simp add: init_defs example_defs failing_meter_extern_def)
qed

text \<open>
  C7. A successful \<open>New\<close> returns a handle whose tracer is the one the global registry
  gives under the name \<open>name\<close> followed by \<open>-tracer\<close>, and whose meter is the one it gives
  under \<open>name\<close> followed by \<open>-meter\<close>; the registered providers are the handle's own.
\<close>

theorem New_names:
  assumes "New ext pkg name opts g = ((Some h, None), g')"
  shows "Tracer h = Some (otel_Tracer g' (name @ ''-tracer''))
     \<and> Meter h = Some (otel_Meter g' (name @ ''-meter''))
     \<and> map_option tracer_name (Tracer h) = Some (name @ ''-tracer'')
     \<and> map_option meter_name (Meter h) = Some (name @ ''-meter'')
     \<and> global_TracerProvider g' = TraceProvider h
     \<and> global_MeterProvider g' = MeterProvider h"
proof -
  let ?z = "applyOptions opts Othell_zero"
  from assms have res: "Resource ?z \<noteq> None"
    by (auto simp: New_def Let_def split: if_splits)
  obtain e1 o1 g1 where t: "initTracer ext ?z g = (e1, o1, g1)"
    by (metis prod_cases3)
  from assms res t have e1: "e1 = None"
    by (cases e1) (auto simp: New_def Let_def)
  from initTracer_success [OF t [unfolded e1]]
  have tp: "global_TracerProvider g1 = TraceProvider o1" by auto
  from assms res t e1 tp show ?thesis
    by (auto simp: New_def Let_def initMeter_cases initLogging_result otel_Tracer_def
          otel_Meter_def split: sum.splits)
qed

theorem New_names_witness:
  "map_option Tracer (fst (fst (New example_extern example_package ''checkout''
       [WithResource (Some example_resource)] example_globals))) =
     Some (Some (NamedTracer
       (Some (NewTracerProvider
          [WithSampler AlwaysSample,
           WithSpanProcessor (NewBatchSpanProcessor (DetectedExporter ''otlp'')),
           sdktrace_WithResource (Some example_resource)]))
       ''checkout-tracer''))
   \<and> map_option Meter (fst (fst (New example_extern example_package ''checkout''
       [WithResource (Some example_resource)] example_globals))) =
     Some (Some (NamedMeter
       (Some (NewMeterProvider
          [WithReader (DetectedReader ''otlp''), sdkmetric_WithResource (Some example_resource)]))
       ''checkout-meter''))"
proof -
  let ?n = "New example_extern example_package ''checkout''
      [WithResource (Some example_resource)] example_globals"
  have n: "?n = ((Some (the (fst (fst ?n))), None), snd ?n)"
    by (simp add: New_def init_defs example_defs)
  have g: "global_TracerProvider (snd ?n) = Some (NewTracerProvider
          [WithSampler AlwaysSample,
           WithSpanProcessor (NewBatchSpanProcessor (DetectedExporter ''otlp'')),
           sdktrace_WithResource (Some example_resource)])"
     "global_MeterProvider (snd ?n) = Some (NewMeterProvider
          [WithReader (DetectedReader ''otlp''), sdkmetric_WithResource (Some example_resource)])"
    by (simp_all add: New_def init_defs example_defs)
  have s: "fst (fst ?n) = Some (the (fst (fst ?n)))"
    using n by (metis fst_conv)
  show ?thesis
    using New_names [OF n] g by (subst s, subst (2) s) (simp add: otel_Tracer_def otel_Meter_def)
qed

section \<open>Claims about logging\<close>

text \<open>
  C2. \<open>Handle\<close> always delegates to the wrapped handler, with the same context. When the
  span context of the ambient context is valid, the record it passes on is the given
  record with exactly three attributes appended, in this order: the trace path
  \<open>projects/E/traces/T\<close> (\<open>E\<close> the cached environment identifier, \<open>T\<close> the trace identifier in
  hexadecimal), the span identifier, and the sampled flag as a boolean. Otherwise it
  passes the given record on as it is.
\<close>

theorem Handle_correlation:
  "Handle pkg t ctx r =
     (if IsValid (SpanContextFromContext ctx) then
        Handler t ctx (r\<lparr>attrs := attrs r @
          [\<lparr>Key = ''logging.googleapis.com/trace'',
            Value = KindString (''projects/'' @ projectID pkg @ ''/traces/''
                      @ TraceID_String (TraceID (SpanContextFromContext ctx)))\<rparr>,
           \<lparr>Key = ''logging.googleapis.com/spanId'',
            Value = KindAny (any_SpanID (SpanID (SpanContextFromContext ctx)))\<rparr>,
           \<lparr>Key = ''logging.googleapis.com/trace_sampled'',
            Value = KindBool (IsSampled (TraceFlags (SpanContextFromContext ctx)))\<rparr>]\<rparr>)
      else Handler t ctx r)"
  by (simp add: Handle_valid Handle_invalid)

theorem Handle_correlation_witness:
  "Handle \<lparr>projectID = ''my-project''\<rparr> (handlerWithSpanContext (\<lambda>ctx r. attrs r))
     (ContextWithSpanContext example_span) example_record =
     [\<lparr>Key = ''user'', Value = KindString ''ada''\<rparr>,
      \<lparr>Key = ''logging.googleapis.com/trace'',
       Value = KindString ''projects/my-project/traces/0af7651916cd43dd8448eb211c80319c''\<rparr>,
      \<lparr>Key = ''logging.googleapis.com/spanId'', Value = KindAny (any_SpanID 0xb7ad6b7169203331)\<rparr>,
      \<lparr>Key = ''logging.googleapis.com/trace_sampled'', Value = KindBool True\<rparr>]
   \<and> Handle \<lparr>projectID = ''my-project''\<rparr> (handlerWithSpanContext (\<lambda>ctx r. attrs r))
     Background example_record = [\<lparr>Key = ''user'', Value = KindString ''ada''\<rparr>]"
  using Handle_correlation [of "\<lparr>projectID = ''my-project''\<rparr>"
      "handlerWithSpanContext (\<lambda>ctx r. attrs r)" "ContextWithSpanContext example_span"
      example_record]
    Handle_correlation [of "\<lparr>projectID = ''my-project''\<rparr>"
      "handlerWithSpanContext (\<lambda>ctx r. attrs r)" Background example_record]
  by (simp add: SpanContextFromContext_def IsValid_def IsSampled_def example_span_def
      example_record_def handlerWithSpanContext_def TraceID_String_def hex_digit_def
      hex_nat_numeral)

text \<open>
  C3. \<open>replacer\<close> renames the level key to \<open>severity\<close>, the time key to \<open>timestamp\<close> and the
  message key to \<open>message\<close>. Under the level key, the level \<open>LevelWarn\<close> becomes the string
  \<open>WARNING\<close> and every other level is passed through as it is; under the other two keys
  the value is passed through as it is.
\<close>

theorem replacer_renames:
  "(Key a = LevelKey \<and> Value_Any (Value a) = any_Level l \<longrightarrow>
      replacer groups a =
        Inr \<lparr>Key = ''severity'',
             Value = (if l = LevelWarn then StringValue ''WARNING'' else Value a)\<rparr>)
   \<and> (Key a = TimeKey \<longrightarrow> replacer groups a = Inr \<lparr>Key = ''timestamp'', Value = Value a\<rparr>)
   \<and> (Key a = MessageKey \<longrightarrow> replacer groups a = Inr \<lparr>Key = ''message'', Value = Value a\<rparr>)"
  by (cases a) (simp add: replacer_def LevelKey_def TimeKey_def MessageKey_def)

theorem replacer_renames_witness:
  "replacer [] (slog_Any LevelKey (any_Level LevelWarn)) =
     Inr \<lparr>Key = ''severity'', Value = KindString ''WARNING''\<rparr>
   \<and> replacer [] (slog_Any LevelKey (any_Level LevelInfo)) =
     Inr \<lparr>Key = ''severity'', Value = KindAny (any_Level 0)\<rparr>
   \<and> replacer [] \<lparr>Key = TimeKey, Value = KindTime 1700000000\<rparr> =
     Inr \<lparr>Key = ''timestamp'', Value = KindTime 1700000000\<rparr>
   \<and> replacer [] \<lparr>Key = MessageKey, Value = KindString ''started''\<rparr> =
     Inr \<lparr>Key = ''message'', Value = KindString ''started''\<rparr>"
  using replacer_renames [of "slog_Any LevelKey (any_Level LevelWarn)" LevelWarn "[]"]
    replacer_renames [of "slog_Any LevelKey (any_Level LevelInfo)" LevelInfo "[]"]
    replacer_renames [of "\<lparr>Key = TimeKey, Value = KindTime 1700000000\<rparr>" 0 "[]"]
    replacer_renames [of "\<lparr>Key = MessageKey, Value = KindString ''started''\<rparr>" 0 "[]"]
  by (simp add: slog_Any_def LevelKey_def TimeKey_def MessageKey_def LevelWarn_def LevelInfo_def
      StringValue_def)

text \<open>
  C9. \<open>replacer\<close> is not total: on an attribute under the level key whose value does not
  hold a \<open>slog.Level\<close>, the type assertion panics, whatever the groups; the attribute is
  not passed through.
\<close>

theorem replacer_panics:
  assumes "Key a = LevelKey" and "\<not> is_Level (Value_Any (Value a))"
  shows "replacer groups a = Inl TypeAssertionPanic"
  using assms by (cases "Value_Any (Value a)") (simp_all add: replacer_def Let_def)

theorem replacer_panics_witness:
  "Key (slog_Any ''level'' (any_string ''high'')) = LevelKey
   \<and> replacer [] (slog_Any ''level'' (any_string ''high'')) = Inl TypeAssertionPanic"
  using replacer_panics [of "slog_Any ''level'' (any_string ''high'')" "[]"]
  by (simp add: LevelKey_def slog_Any_def)

section \<open>Claims about the environment identifier\<close>

text \<open>
  C6. \<open>init\<close>, which runs once when the package is loaded, asks the metadata source
  whether the process runs on the platform exactly once and asks for the project
  identifier at most once. What it caches is that identifier when both answers are
  positive and the fallback \<open>non-gcp\<close> in every other case; it is a string in every case,
  no error is returned. Every later read is the read in \<open>Handle\<close>, which takes the cached
  value and does not reach the metadata source.
\<close>

theorem init_resolves_once:
  assumes "init m = (pkg, m')"
  shows "OnGCE_calls m' = OnGCE_calls m + 1
     \<and> ProjectID_calls m' \<le> ProjectID_calls m + 1
     \<and> projectID pkg =
          (if OnGCE_result m
           then (case ProjectID_result m of Inr ident \<Rightarrow> ident | Inl err \<Rightarrow> ''non-gcp'')
           else ''non-gcp'')
     \<and> Handle pkg t ctx r =
          (if IsValid (SpanContextFromContext ctx) then
             Handler t ctx (r\<lparr>attrs := attrs r @
               [\<lparr>Key = ''logging.googleapis.com/trace'',
                 Value = KindString (''projects/''
                   @ (if OnGCE_result m
                      then (case ProjectID_result m of
                              Inr ident \<Rightarrow> ident | Inl err \<Rightarrow> ''non-gcp'')
                      else ''non-gcp'')
                   @ ''/traces/'' @ TraceID_String (TraceID (SpanContextFromContext ctx)))\<rparr>,
                \<lparr>Key = ''logging.googleapis.com/spanId'',
                 Value = KindAny (any_SpanID (SpanID (SpanContextFromContext ctx)))\<rparr>,
                \<lparr>Key = ''logging.googleapis.com/trace_sampled'',
                 Value = KindBool (IsSampled (TraceFlags (SpanContextFromContext ctx)))\<rparr>]\<rparr>)
           else Handler t ctx r)"
proof -
  from assms have p: "projectID pkg =
          (if OnGCE_result m
           then (case ProjectID_result m of Inr ident \<Rightarrow> ident | Inl err \<Rightarrow> ''non-gcp'')
           else ''non-gcp'')"
    and c: "OnGCE_calls m' = OnGCE_calls m + 1" "ProjectID_calls m' \<le> ProjectID_calls m + 1"
    by (auto simp: init_def getProjectID_def metadata_OnGCE_def
          metadata_ProjectIDWithContext_def
          split: sum.splits if_splits prod.splits bool.splits)
  show ?thesis
    unfolding p [symmetric] using c by (simp add: Handle_valid Handle_invalid)
qed

theorem init_resolves_once_witness:
  "init failing_metadata =
     (\<lparr>projectID = ''non-gcp''\<rparr>, failing_metadata\<lparr>OnGCE_calls := 1, ProjectID_calls := 1\<rparr>)
   \<and> init gce_metadata =
     (\<lparr>projectID = ''my-project''\<rparr>, gce_metadata\<lparr>OnGCE_calls := 1, ProjectID_calls := 1\<rparr>)
   \<and> init (gce_metadata\<lparr>OnGCE_result := False\<rparr>) =
     (\<lparr>projectID = ''non-gcp''\<rparr>, gce_metadata\<lparr>OnGCE_result := False, OnGCE_calls := 1\<rparr>)
   \<and> Handle (fst (init gce_metadata)) (handlerWithSpanContext (\<lambda>ctx r. attrs r))
        (ContextWithSpanContext example_span) example_record =
     [\<lparr>Key = ''user'', Value = KindString ''ada''\<rparr>,
      \<lparr>Key = ''logging.googleapis.com/trace'',
       Value = KindString ''projects/my-project/traces/0af7651916cd43dd8448eb211c80319c''\<rparr>,
      \<lparr>Key = ''logging.googleapis.com/spanId'', Value = KindAny (any_SpanID 0xb7ad6b7169203331)\<rparr>,
      \<lparr>Key = ''logging.googleapis.com/trace_sampled'', Value = KindBool True\<rparr>]"
proof -
  have a: "init failing_metadata =
     (\<lparr>projectID = ''non-gcp''\<rparr>, failing_metadata\<lparr>OnGCE_calls := 1, ProjectID_calls := 1\<rparr>)"
    by (simp add: init_def getProjectID_def metadata_OnGCE_def
          metadata_ProjectIDWithContext_def failing_metadata_def)
  have b: "init gce_metadata =
     (\<lparr>projectID = ''my-project''\<rparr>, gce_metadata\<lparr>OnGCE_calls := 1, ProjectID_calls := 1\<rparr>)"
    by (simp add: init_def getProjectID_def metadata_OnGCE_def
          metadata_ProjectIDWithContext_def gce_metadata_def)
  have c: "init (gce_metadata\<lparr>OnGCE_result := False\<rparr>) =
     (\<lparr>projectID = ''non-gcp''\<rparr>, gce_metadata\<lparr>OnGCE_result := False, OnGCE_calls := 1\<rparr>)"
    by (simp add: init_def getProjectID_def metadata_OnGCE_def
          metadata_ProjectIDWithContext_def gce_metadata_def)
  have d: "OnGCE_result gce_metadata" "ProjectID_result gce_metadata = Inr ''my-project''"
    by (simp_all add: gce_metadata_def)
  show ?thesis
    using init_resolves_once [OF a] init_resolves_once [OF c] a c
      init_resolves_once [OF b, of "handlerWithSpanContext (\<lambda>ctx r. attrs r)"
        "ContextWithSpanContext example_span" example_record]
    by (simp add: b d SpanContextFromContext_def IsValid_def IsSampled_def example_span_def
      example_record_def handlerWithSpanContext_def TraceID_String_def hex_digit_def
      hex_nat_numeral)
qed

section \<open>Claims about options\<close>

text \<open>
  C8, as amended. \<open>New\<close> applies its options in list order, so the last write to a field
  wins: after a list of the three constructors the endpoint is the one of the last
  \<open>WithCollectorEndpoint\<close>, the resource the one of the last \<open>WithResource\<close>, and the debug
  flag is set when \<open>WithDebugTracer\<close> occurs at all. Applying a permutation of the list
  gives the same struct, and the same result of \<open>New\<close>, when the options of the list that
  write the same field all write the same value.
\<close>

theorem options_order_amended:
  "(mset cs' = mset cs \<and> length (remdups (endpoint_writes cs)) \<le> 1
      \<and> length (remdups (resource_writes cs)) \<le> 1
    \<longrightarrow> applyOptions (map option_of cs') z = applyOptions (map option_of cs) z
      \<and> New ext pkg name (map option_of cs') g = New ext pkg name (map option_of cs) g)
   \<and> CollectorEndpoint (applyOptions (map option_of cs) z) =
       (if endpoint_writes cs = [] then CollectorEndpoint z else last (endpoint_writes cs))
   \<and> Resource (applyOptions (map option_of cs) z) =
       (if resource_writes cs = [] then Resource z else last (resource_writes cs))
   \<and> DebugTracer (applyOptions (map option_of cs) z) =
       (DebugTracer z \<or> CallWithDebugTracer \<in> set cs)"
proof -
  have "applyOptions (map option_of cs') z = applyOptions (map option_of cs) z
      \<and> New ext pkg name (map option_of cs') g = New ext pkg name (map option_of cs) g"
    if "mset cs' = mset cs" "length (remdups (endpoint_writes cs)) \<le> 1"
       "length (remdups (resource_writes cs)) \<le> 1" for z
    using applyOptions_permuted [OF that] by (simp add: New_def)
  then show ?thesis
    by (simp add: applyOptions_calls)
qed

theorem options_order_amended_witness:
  "applyOptions (map option_of
       [CallWithDebugTracer, CallWithResource (Some example_resource),
        CallWithCollectorEndpoint ''localhost:4317'']) Othell_zero =
     applyOptions (map option_of
       [CallWithCollectorEndpoint ''localhost:4317'', CallWithResource (Some example_resource),
        CallWithDebugTracer]) Othell_zero
   \<and> New example_extern example_package ''checkout'' (map option_of
       [CallWithDebugTracer, CallWithResource (Some example_resource),
        CallWithCollectorEndpoint ''localhost:4317'']) example_globals =
     New example_extern example_package ''checkout'' (map option_of
       [CallWithCollectorEndpoint ''localhost:4317'', CallWithResource (Some example_resource),
        CallWithDebugTracer]) example_globals
   \<and> CollectorEndpoint (applyOptions (map option_of
       [CallWithCollectorEndpoint ''a'', CallWithCollectorEndpoint ''b'']) Othell_zero) = ''b''"
  using options_order_amended
    [where cs' = "[CallWithDebugTracer, CallWithResource (Some example_resource),
          CallWithCollectorEndpoint ''localhost:4317'']"
      and cs = "[CallWithCollectorEndpoint ''localhost:4317'',
          CallWithResource (Some example_resource), CallWithDebugTracer]"
      and z = Othell_zero and ext = example_extern and pkg = example_package
      and name = "''checkout''" and g = example_globals]
    options_order_amended
    [where cs' = "[CallWithCollectorEndpoint ''a'', CallWithCollectorEndpoint ''b'']"
      and cs = "[CallWithCollectorEndpoint ''a'', CallWithCollectorEndpoint ''b'']"
      and z = Othell_zero and ext = example_extern and pkg = example_package
      and name = "''checkout''" and g = example_globals]
  by simp

text \<open>
  C8 as stated fails: two endpoint options in the two possible orders are permutations
  of each other and leave different structs, and \<open>New\<close> returns different handles.
\<close>

theorem options_order_counterexample:
  "mset [CallWithCollectorEndpoint ''a'', CallWithCollectorEndpoint ''b''] =
     mset [CallWithCollectorEndpoint ''b'', CallWithCollectorEndpoint ''a'']
   \<and> applyOptions (map option_of [CallWithCollectorEndpoint ''a'', CallWithCollectorEndpoint ''b''])
        Othell_zero
     \<noteq> applyOptions (map option_of [CallWithCollectorEndpoint ''b'', CallWithCollectorEndpoint ''a''])
        Othell_zero
   \<and> New example_extern example_package ''checkout''
        (map option_of [CallWithResource (Some example_resource),
           CallWithCollectorEndpoint ''a'', CallWithCollectorEndpoint ''b'']) example_globals
     \<noteq> New example_extern example_package ''checkout''
        (map option_of [CallWithResource (Some example_resource),
           CallWithCollectorEndpoint ''b'', CallWithCollectorEndpoint ''a'']) example_globals"
  by (simp add: New_def init_defs example_defs)

text \<open>
  C10. \<open>WithCollectorEndpoint\<close> writes the endpoint field and nothing else, and nothing
  in \<open>New\<close> reads that field: two option lists that differ only in their endpoint options
  give the same process-wide defaults and the same error, and handles that are equal up
  to the endpoint field, which holds the endpoint written last.
\<close>

theorem collector_endpoint_frame:
  assumes "filter (\<lambda>c. \<not> is_endpoint_call c) cs = filter (\<lambda>c. \<not> is_endpoint_call c) cs'"
  shows "snd (New ext pkg name (map option_of cs) g) = snd (New ext pkg name (map option_of cs') g)
     \<and> snd (fst (New ext pkg name (map option_of cs) g)) =
         snd (fst (New ext pkg name (map option_of cs') g))
     \<and> map_option (\<lambda>h. h\<lparr>CollectorEndpoint := []\<rparr>)
           (fst (fst (New ext pkg name (map option_of cs) g))) =
         map_option (\<lambda>h. h\<lparr>CollectorEndpoint := []\<rparr>)
           (fst (fst (New ext pkg name (map option_of cs') g)))
     \<and> map_option CollectorEndpoint (fst (fst (New ext pkg name (map option_of cs) g))) =
         map_option (\<lambda>h. if endpoint_writes cs = [] then [] else last (endpoint_writes cs))
           (fst (fst (New ext pkg name (map option_of cs) g)))
     \<and> WithCollectorEndpoint endpoint oth = oth\<lparr>CollectorEndpoint := endpoint\<rparr>"
proof -
  obtain h err g' where
    n: "New ext pkg name (map option_of (filter (\<lambda>c. \<not> is_endpoint_call c) cs)) g
          = ((h, err), g')"
    by (metis prod.exhaust)
  have a: "New ext pkg name (map option_of cs) g =
      ((map_option (\<lambda>h. h\<lparr>CollectorEndpoint :=
          (if endpoint_writes cs = [] then [] else last (endpoint_writes cs))\<rparr>) h, err), g')"
    by (subst New_endpoint_calls) (simp add: n)
  have b: "New ext pkg name (map option_of cs') g =
      ((map_option (\<lambda>h. h\<lparr>CollectorEndpoint :=
          (if endpoint_writes cs' = [] then [] else last (endpoint_writes cs'))\<rparr>) h, err), g')"
    by (subst New_endpoint_calls) (simp add: n assms [symmetric])
  show ?thesis
    by (simp add: a b option.map_comp comp_def WithCollectorEndpoint_def)
qed

theorem collector_endpoint_frame_witness:
  "snd (New example_extern example_package ''checkout''
       (map option_of [CallWithResource (Some example_resource),
          CallWithCollectorEndpoint ''localhost:4317'']) example_globals) =
   snd (New example_extern example_package ''checkout''
       (map option_of [CallWithResource (Some example_resource)]) example_globals)
   \<and> map_option CollectorEndpoint (fst (fst (New example_extern example_package ''checkout''
       (map option_of [CallWithResource (Some example_resource),
          CallWithCollectorEndpoint ''localhost:4317'']) example_globals))) =
     Some ''localhost:4317''"
proof -
  let ?n = "New example_extern example_package ''checkout''
       (map option_of [CallWithResource (Some example_resource),
          CallWithCollectorEndpoint ''localhost:4317'']) example_globals"
  have s: "fst (fst ?n) \<noteq> None"
    by (simp add: New_def init_defs example_defs)
  show ?thesis
    using s collector_endpoint_frame
      [of "[CallWithResource (Some example_resource), CallWithCollectorEndpoint ''localhost:4317'']"
          "[CallWithResource (Some example_resource)]"
          example_extern example_package "''checkout''" example_globals]
    by auto
qed

end
